theory Spec2Isabelle
  imports Main
begin

section \<open>JavaScript values and the heap\<close>

text \<open>
  The scaffold consists of two executable files: \<^verbatim>\<open>src/lib/queryClient.ts\<close>, which
  constructs the shared query client from an object literal, and \<^verbatim>\<open>src/App.tsx\<close>,
  which returns the root element tree. Object literals are association lists in source
  order, numbers are integers (every number of the source is a small integer, exactly
  representable as a double), and objects created with \<^verbatim>\<open>new\<close> live in a heap whose
  addresses are list indices, so that reference identity can be stated.
\<close>

type_synonym ref = nat

datatype jsval =
    JUndefined
  | JNull
  | JBool bool
  | JNum int
  | JObj "(string \<times> jsval) list"

datatype error = ReferenceError | TypeError

text \<open>
  Property read \<^verbatim>\<open>v.k\<close> of an own property: a TypeError on \<^verbatim>\<open>undefined\<close> and
  \<^verbatim>\<open>null\<close>, the value of the last entry for the key in an object literal,
  \<^verbatim>\<open>undefined\<close> for an absent key. The members an object inherits from its prototype
  (\<^verbatim>\<open>constructor\<close>, \<^verbatim>\<open>toString\<close> and the like) are not modelled, so the function is
  read only at keys that are not inherited ones: the keys of the source's literal and
  the option name \<^verbatim>\<open>mutations\<close>.
\<close>

fun get_prop :: "jsval \<Rightarrow> string \<Rightarrow> error + jsval" where
  "get_prop JUndefined k = Inl TypeError"
| "get_prop JNull k = Inl TypeError"
| "get_prop (JObj kvs) k = Inr (case map_of (rev kvs) k of None \<Rightarrow> JUndefined | Some v \<Rightarrow> v)"
| "get_prop (JBool b) k = Inr JUndefined"
| "get_prop (JNum n) k = Inr JUndefined"

text \<open>Truthiness, as the operator \<^verbatim>\<open>||\<close> tests it.\<close>

fun truthy :: "jsval \<Rightarrow> bool" where
  "truthy JUndefined = False"
| "truthy JNull = False"
| "truthy (JBool b) = b"
| "truthy (JNum n) = (n \<noteq> 0)"
| "truthy (JObj kvs) = True"

text \<open>
  \<^verbatim>\<open>Object.keys(v)\<close>: the own keys of an object literal, each once, in the order of
  their first occurrence (the order of keys that are not array indices, as all keys of
  the source are); none for a boolean or a number; a TypeError on \<^verbatim>\<open>undefined\<close> and
  \<^verbatim>\<open>null\<close>.
\<close>

fun own_keys :: "jsval \<Rightarrow> error + string list" where
  "own_keys JUndefined = Inl TypeError"
| "own_keys JNull = Inl TypeError"
| "own_keys (JObj kvs) = Inr (rev (remdups (rev (map fst kvs))))"
| "own_keys (JBool b) = Inr []"
| "own_keys (JNum n) = Inr []"

text \<open>
  Modelled from the spec: the class \<^verbatim>\<open>QueryClient\<close> belongs to the library
  \<^verbatim>\<open>@tanstack/react-query\<close> and is not under src/. The spec describes the client as the
  holder of "the default policy applied to every server-state read", "constructed once
  at process start with the options" given; so a client is the default options it was
  constructed with. The constructor's parameter defaults to the empty object when it is
  \<^verbatim>\<open>undefined\<close>, and it keeps \<^verbatim>\<open>config.defaultOptions || {}\<close>.
\<close>

record QueryClient =
  defaultOptions :: jsval

definition new_QueryClient :: "jsval \<Rightarrow> QueryClient list \<Rightarrow> error + (ref \<times> QueryClient list)" where
  "new_QueryClient config h =
     (case get_prop (if config = JUndefined then JObj [] else config) ''defaultOptions'' of
        Inl e \<Rightarrow> Inl e
      | Inr d \<Rightarrow>
          Inr (length h, h @ [\<lparr>defaultOptions = (if truthy d then d else JObj [])\<rparr>]))"

section \<open>Element trees\<close>

text \<open>
  The two component identifiers \<^verbatim>\<open>App.tsx\<close> uses. \<^verbatim>\<open>QueryClientProvider\<close> is the
  library's provider; \<^verbatim>\<open>HomePage\<close> is imported from \<^verbatim>\<open>./pages\<close>, which is not under
  src/, so it stays an opaque component. An element is a component, its props and its
  children; the only prop value of the source is a reference to a client.
\<close>

datatype component = QueryClientProvider | HomePage

datatype element = Element component "(string \<times> ref) list" "element list"

datatype event = Constructed ref | Rendered element

section \<open>Program state\<close>

text \<open>
  \<open>queryClient\<close> is the exported \<^verbatim>\<open>const\<close> binding of \<^verbatim>\<open>lib/queryClient.ts\<close>:
  \<open>None\<close> until the module has been evaluated. \<open>trace\<close> is a history of what has
  happened, oldest first; nothing reads it.
\<close>

record state =
  heap :: "QueryClient list"
  queryClient :: "ref option"
  trace :: "event list"

definition init_state :: state where
  "init_state = \<lparr>heap = [], queryClient = None, trace = []\<rparr>"

section \<open>lib/queryClient.ts\<close>

text \<open>The object literal of lines 4 to 12.\<close>

definition queryClient_config :: jsval where
  "queryClient_config =
     JObj [(''defaultOptions'',
       JObj [(''queries'',
         JObj [(''refetchOnWindowFocus'', JBool False),
               (''retry'', JNum 1),
               (''staleTime'', JNum (5 * 60 * 1000))])])]"

text \<open>The module body: construct the client and initialise the exported binding.\<close>

definition queryClient_module :: "state \<Rightarrow> error + state" where
  "queryClient_module s =
     (case new_QueryClient queryClient_config (heap s) of
        Inl e \<Rightarrow> Inl e
      | Inr (r, h) \<Rightarrow>
          Inr (s\<lparr>heap := h, queryClient := Some r, trace := trace s @ [Constructed r]\<rparr>))"

text \<open>
  \<^verbatim>\<open>import { queryClient } from './lib/queryClient'\<close>: a module is evaluated the first
  time it is imported and never again.
\<close>

definition import_queryClient :: "state \<Rightarrow> error + state" where
  "import_queryClient s =
     (case queryClient s of None \<Rightarrow> queryClient_module s | Some r \<Rightarrow> Inr s)"

section \<open>App.tsx\<close>

text \<open>
  The module's imports run before anything of it can be called. The imports of the
  library and of \<^verbatim>\<open>./pages\<close> have no state in this model.
\<close>

definition App_module :: "state \<Rightarrow> error + state" where
  "App_module s = import_queryClient s"

text \<open>
  The function \<^verbatim>\<open>App\<close>: no parameter. Reading a \<^verbatim>\<open>const\<close> binding that is not yet
  initialised is a ReferenceError.
\<close>

definition App :: "state \<Rightarrow> error + element" where
  "App s =
     (case queryClient s of
        None \<Rightarrow> Inl ReferenceError
      | Some r \<Rightarrow>
          Inr (Element QueryClientProvider [(''client'', r)] [Element HomePage [] []]))"

section \<open>Operations of the program\<close>

text \<open>
  The entry point \<^verbatim>\<open>main.tsx\<close> is not under src/. Whatever it does with the two files
  is a sequence of the operations they offer: importing the module \<^verbatim>\<open>App.tsx\<close> and
  calling \<^verbatim>\<open>App\<close>. A run stops at the first error, as the exception would.
\<close>

datatype op = Import_App | Render_App

fun step :: "op \<Rightarrow> state \<Rightarrow> error + state" where
  "step Import_App s = App_module s"
| "step Render_App s =
     (case App s of
        Inl e \<Rightarrow> Inl e
      | Inr el \<Rightarrow> Inr (s\<lparr>trace := trace s @ [Rendered el]\<rparr>))"

fun run :: "op list \<Rightarrow> state \<Rightarrow> error + state" where
  "run [] s = Inr s"
| "run (x # xs) s = (case step x s of Inl e \<Rightarrow> Inl e | Inr s' \<Rightarrow> run xs s')"

section \<open>Observers\<close>

text \<open>The client a reference denotes.\<close>

definition client_at :: "QueryClient list \<Rightarrow> ref \<Rightarrow> QueryClient option" where
  "client_at h r = (if r < length h then Some (h ! r) else None)"

text \<open>
  Inspecting the shared client: \<^verbatim>\<open>queryClient.getDefaultOptions().queries.k\<close>, read
  through the exported binding.
\<close>

definition query_default :: "state \<Rightarrow> string \<Rightarrow> error + jsval" where
  "query_default s k =
     (case queryClient s of
        None \<Rightarrow> Inl ReferenceError
      | Some r \<Rightarrow>
          (case client_at (heap s) r of
             None \<Rightarrow> Inl ReferenceError
           | Some c \<Rightarrow>
               (case get_prop (defaultOptions c) ''queries'' of
                  Inl e \<Rightarrow> Inl e
                | Inr q \<Rightarrow> get_prop q k)))"

text \<open>How often a component occurs in a tree, the root included.\<close>

fun count_component :: "component \<Rightarrow> element \<Rightarrow> nat" where
  "count_component c (Element c' ps cs) =
     (if c' = c then 1 else 0) + sum_list (map (count_component c) cs)"

fun component_of :: "element \<Rightarrow> component" where
  "component_of (Element c ps cs) = c"

fun children_of :: "element \<Rightarrow> element list" where
  "children_of (Element c ps cs) = cs"

fun client_prop :: "element \<Rightarrow> ref option" where
  "client_prop (Element c ps cs) = map_of ps ''client''"

text \<open>Every element strictly below the root.\<close>

fun descendants :: "element \<Rightarrow> element list" where
  "descendants (Element c ps cs) = concat (map (\<lambda>e. e # descendants e) cs)"

text \<open>
  The provider scope: every element of the tree with the client that its nearest
  enclosing \<^verbatim>\<open>QueryClientProvider\<close> supplies (\<open>None\<close> outside every provider). A
  provider supplies its \<^verbatim>\<open>client\<close> prop to its children, not to itself.
\<close>

fun scope :: "ref option \<Rightarrow> element \<Rightarrow> (component \<times> ref option) list" where
  "scope ctx (Element c ps cs) =
     (c, ctx) #
     concat (map (scope (if c = QueryClientProvider then map_of ps ''client'' else ctx)) cs)"

text \<open>The clients that the elements other than providers find in scope.\<close>

definition clients_in_scope :: "element \<Rightarrow> ref option list" where
  "clients_in_scope el = map snd (filter (\<lambda>p. fst p \<noteq> QueryClientProvider) (scope None el))"

text \<open>A policy is complete when each of the three query defaults has a value.\<close>

definition has_default :: "jsval \<Rightarrow> string \<Rightarrow> bool" where
  "has_default q k = (case get_prop q k of Inl e \<Rightarrow> False | Inr v \<Rightarrow> v \<noteq> JUndefined)"

definition policy_complete :: "QueryClient \<Rightarrow> bool" where
  "policy_complete c =
     (case get_prop (defaultOptions c) ''queries'' of
        Inl e \<Rightarrow> False
      | Inr q \<Rightarrow>
          has_default q ''refetchOnWindowFocus'' \<and> has_default q ''retry''
          \<and> has_default q ''staleTime'')"

text \<open>
  A history is in order when every element of every rendered tree that is not a provider
  has a client in scope, and that client was constructed earlier in the history.
\<close>

fun in_scope_of :: "ref list \<Rightarrow> ref option \<Rightarrow> bool" where
  "in_scope_of seen None = False"
| "in_scope_of seen (Some r) = (r \<in> set seen)"

fun constructed_before_render :: "ref list \<Rightarrow> event list \<Rightarrow> bool" where
  "constructed_before_render seen [] = True"
| "constructed_before_render seen (Constructed r # es) =
     constructed_before_render (r # seen) es"
| "constructed_before_render seen (Rendered el # es) =
     (list_all (in_scope_of seen) (clients_in_scope el)
      \<and> constructed_before_render seen es)"

fun is_Constructed :: "event \<Rightarrow> bool" where
  "is_Constructed (Constructed r) = True"
| "is_Constructed (Rendered el) = False"

subsection \<open>The states the program reaches\<close>

text \<open>
  The client and the tree of the source written out, and the state after the modules
  have been loaded and the root has been rendered \<open>n\<close> times.
\<close>

definition policy_client :: QueryClient where
  "policy_client =
     \<lparr>defaultOptions =
        JObj [(''queries'',
          JObj [(''refetchOnWindowFocus'', JBool False),
                (''retry'', JNum 1),
                (''staleTime'', JNum 300000)])]\<rparr>"

definition root_tree :: "ref \<Rightarrow> element" where
  "root_tree r = Element QueryClientProvider [(''client'', r)] [Element HomePage [] []]"

definition loaded :: "nat \<Rightarrow> state" where
  "loaded n =
     \<lparr>heap = [policy_client], queryClient = Some 0,
      trace = Constructed 0 # replicate n (Rendered (root_tree 0))\<rparr>"

section \<open>The configuration after construction\<close>

lemma new_QueryClient_config:
  "new_QueryClient queryClient_config h = Inr (length h, h @ [policy_client])"
  by (simp add: new_QueryClient_def queryClient_config_def policy_client_def)

lemma queryClient_module_eq:
  "queryClient_module s =
     Inr (s\<lparr>heap := heap s @ [policy_client],
            queryClient := Some (length (heap s)),
            trace := trace s @ [Constructed (length (heap s))]\<rparr>)"
  by (simp add: queryClient_module_def new_QueryClient_config)

lemma new_QueryClient_null: "new_QueryClient JNull h = Inl TypeError"
  by (simp add: new_QueryClient_def)

text \<open>
  C1. After the module \<^verbatim>\<open>lib/queryClient.ts\<close> has been evaluated, in whatever state,
  inspecting the query defaults of the exported client gives
  \<open>refetchOnWindowFocus = false\<close>, \<open>retry = 1\<close> and \<open>staleTime = 300000\<close>.
\<close>

theorem queryClient_reports_policy:
  "\<exists>s'. queryClient_module s = Inr s'
     \<and> query_default s' ''refetchOnWindowFocus'' = Inr (JBool False)
     \<and> query_default s' ''retry'' = Inr (JNum 1)
     \<and> query_default s' ''staleTime'' = Inr (JNum 300000)"
  by (simp add: queryClient_module_eq query_default_def client_at_def policy_client_def)

text \<open>
  C7. Constructing the client never fails: the module body returns a state from every
  state, and so does importing the module. (The constructor does have a failing input,
  \<open>new_QueryClient_null\<close>; the literal of the source is not one.)
\<close>

theorem construction_never_fails:
  "(\<exists>r h'. new_QueryClient queryClient_config h = Inr (r, h'))
   \<and> (\<exists>s'. queryClient_module s = Inr s')
   \<and> (\<exists>s'. import_queryClient s = Inr s')"
  by (cases "queryClient s")
     (simp_all add: new_QueryClient_config queryClient_module_eq import_queryClient_def)

section \<open>Runs of the program\<close>

lemma App_loaded: "App (loaded n) = Inr (root_tree 0)"
  by (simp add: App_def loaded_def root_tree_def)

lemma step_loaded:
  "step x (loaded n) = Inr (loaded (case x of Import_App \<Rightarrow> n | Render_App \<Rightarrow> Suc n))"
proof (cases x)
  case Import_App
  then show ?thesis
    by (simp add: App_module_def import_queryClient_def loaded_def)
next
  case Render_App
  have "replicate n (Rendered (root_tree 0)) @ [Rendered (root_tree 0)]
          = replicate (Suc n) (Rendered (root_tree 0))"
    by (simp add: replicate_append_same)
  with Render_App show ?thesis
    by (simp add: App_loaded) (simp add: loaded_def)
qed

lemma run_loaded: "\<exists>m. run ops (loaded n) = Inr (loaded m)"
proof (induction ops arbitrary: n)
  case Nil
  show ?case by auto
next
  case (Cons x xs)
  obtain k where "step x (loaded n) = Inr (loaded k)"
    using step_loaded by blast
  with Cons.IH [of k] show ?case by simp
qed

lemma import_init: "App_module init_state = Inr (loaded 0)"
  by (simp add: App_module_def import_queryClient_def queryClient_module_eq
      init_state_def loaded_def)

lemma run_after_import: "\<exists>m. run (Import_App # ops) init_state = Inr (loaded m)"
  using run_loaded [of ops 0] by (simp add: import_init)

lemma render_before_import: "run (Render_App # ops) init_state = Inl ReferenceError"
  by (simp add: App_def init_state_def)

lemma run_init_cases:
  assumes "run ops init_state = Inr s"
  shows "s = init_state \<or> (\<exists>m. s = loaded m)"
proof (cases ops)
  case Nil
  with assms show ?thesis by simp
next
  case (Cons x xs)
  show ?thesis
  proof (cases x)
    case Import_App
    with Cons assms run_after_import [of xs] show ?thesis by auto
  next
    case Render_App
    with Cons assms render_before_import [of xs] show ?thesis by simp
  qed
qed

section \<open>The root composition\<close>

lemma App_after_import:
  "\<exists>s' r. App_module s = Inr s' \<and> queryClient s' = Some r \<and> App s' = Inr (root_tree r)"
  by (cases "queryClient s")
     (simp_all add: App_module_def import_queryClient_def queryClient_module_eq App_def
        root_tree_def)

lemma count_provider_root: "count_component QueryClientProvider (root_tree r) = 1"
  by (simp add: root_tree_def)

lemma count_page_root: "count_component HomePage (root_tree r) = 1"
  by (simp add: root_tree_def)

lemma clients_in_scope_root: "clients_in_scope (root_tree r) = [Some r]"
  by (simp add: clients_in_scope_def root_tree_def)

text \<open>
  C2. Whatever the state the module \<^verbatim>\<open>App.tsx\<close> is loaded in, the tree \<^verbatim>\<open>App\<close> returns
  has exactly one \<^verbatim>\<open>QueryClientProvider\<close>; that provider is the root of the tree, its
  only child is the \<^verbatim>\<open>HomePage\<close> element, and so the page is among the provider's
  descendants and finds the provider's client in scope.
\<close>

theorem one_provider_wraps_page:
  "\<exists>s' e. App_module s = Inr s' \<and> App s' = Inr e
     \<and> count_component QueryClientProvider e = 1
     \<and> component_of e = QueryClientProvider
     \<and> children_of e = [Element HomePage [] []]
     \<and> Element HomePage [] [] \<in> set (descendants e)
     \<and> scope None e = [(QueryClientProvider, None), (HomePage, client_prop e)]"
proof -
  obtain s' r where "App_module s = Inr s'" and "App s' = Inr (root_tree r)"
    using App_after_import by blast
  moreover have "count_component QueryClientProvider (root_tree r) = 1"
    by (rule count_provider_root)
  moreover have "component_of (root_tree r) = QueryClientProvider"
    and "children_of (root_tree r) = [Element HomePage [] []]"
    and "Element HomePage [] [] \<in> set (descendants (root_tree r))"
    and "scope None (root_tree r) = [(QueryClientProvider, None), (HomePage, client_prop (root_tree r))]"
    by (simp_all add: root_tree_def)
  ultimately show ?thesis by blast
qed

text \<open>
  C3. From the initial state, with nothing loaded, loading the module and rendering the
  root succeeds: \<^verbatim>\<open>App\<close> returns a tree and raises nothing, and the tree holds exactly
  one page, the only child of its root. \<^verbatim>\<open>App\<close> has no argument besides the state of
  the module bindings.
\<close>

theorem render_fresh_one_page:
  "\<exists>s e s'. run [Import_App] init_state = Inr s \<and> App s = Inr e
     \<and> run [Import_App, Render_App] init_state = Inr s'
     \<and> count_component HomePage e = 1
     \<and> map component_of (children_of e) = [HomePage]"
proof -
  have "run [Import_App] init_state = Inr (loaded 0)"
    by (simp add: import_init)
  moreover have "App (loaded 0) = Inr (root_tree 0)"
    by (rule App_loaded)
  moreover have "run [Import_App, Render_App] init_state = Inr (loaded (Suc 0))"
    by (simp add: import_init step_loaded)
  moreover have "count_component HomePage (root_tree 0) = 1"
    by (rule count_page_root)
  moreover have "map component_of (children_of (root_tree 0)) = [HomePage]"
    by (simp add: root_tree_def)
  ultimately show ?thesis by (intro exI conjI)
qed

section \<open>The client is constructed once and never changed\<close>

lemma heap_loaded: "heap (loaded n) = [policy_client]"
  by (simp add: loaded_def)

lemma queryClient_loaded: "queryClient (loaded n) = Some 0"
  by (simp add: loaded_def)

lemma query_default_loaded: "query_default (loaded n) k = query_default (loaded 0) k"
  by (simp add: query_default_def loaded_def)

lemma constructions_loaded: "length (filter is_Constructed (trace (loaded n))) = 1"
  by (simp add: loaded_def)

text \<open>
  C4. Startup constructs one client. After it, every sequence of operations of the
  program (loading the module again, rendering the root) succeeds and leaves the heap,
  the exported binding and every query default as startup made them; the history holds
  one construction.
\<close>

theorem client_constructed_once_never_mutated:
  "\<exists>s0. run [Import_App] init_state = Inr s0
     \<and> length (heap s0) = 1
     \<and> (\<forall>ops. \<exists>s'. run ops s0 = Inr s'
           \<and> heap s' = heap s0
           \<and> queryClient s' = queryClient s0
           \<and> (\<forall>k. query_default s' k = query_default s0 k)
           \<and> length (filter is_Constructed (trace s')) = 1)"
proof -
  have start: "run [Import_App] init_state = Inr (loaded 0)"
    by (simp add: import_init)
  have "\<exists>s'. run ops (loaded 0) = Inr s'
           \<and> heap s' = heap (loaded 0)
           \<and> queryClient s' = queryClient (loaded 0)
           \<and> (\<forall>k. query_default s' k = query_default (loaded 0) k)
           \<and> length (filter is_Constructed (trace s')) = 1" for ops
  proof -
    obtain m where "run ops (loaded 0) = Inr (loaded m)"
      using run_loaded by blast
    then show ?thesis
      using query_default_loaded [of m] constructions_loaded [of m]
      by (simp add: heap_loaded queryClient_loaded)
  qed
  with start show ?thesis
    by (simp add: heap_loaded)
qed

text \<open>
  C5. Evaluating the construction twice, from any state, gives two different addresses
  that denote equal clients; the second construction leaves the first client as it
  was, and the client constructed is the same value whatever the heap it is allocated
  in.
\<close>

theorem construct_twice_independent:
  "\<exists>c. \<forall>s h. \<exists>s1 s2 r1 r2.
     queryClient_module s = Inr s1 \<and> queryClient_module s1 = Inr s2
     \<and> queryClient s1 = Some r1 \<and> queryClient s2 = Some r2
     \<and> r1 \<noteq> r2
     \<and> client_at (heap s1) r1 = Some c
     \<and> client_at (heap s2) r1 = Some c
     \<and> client_at (heap s2) r2 = Some c
     \<and> new_QueryClient queryClient_config h = Inr (length h, h @ [c])"
  by (rule exI [of _ policy_client])
     (simp add: queryClient_module_eq new_QueryClient_config client_at_def nth_append)

section \<open>Determinism and identity\<close>

text \<open>
  C8. There is one tree that every render after startup returns, whatever operations
  came before; and \<^verbatim>\<open>App\<close> reads nothing of the state but the exported binding.
\<close>

theorem App_deterministic:
  "(\<exists>e. \<forall>ops. \<exists>s. run (Import_App # ops) init_state = Inr s \<and> App s = Inr e)
   \<and> (\<forall>s h t. App (s\<lparr>heap := h, trace := t\<rparr>) = App s)"
proof
  have "\<exists>s. run (Import_App # ops) init_state = Inr s \<and> App s = Inr (root_tree 0)" for ops
    using run_after_import [of ops] App_loaded by auto
  then show "\<exists>e. \<forall>ops. \<exists>s. run (Import_App # ops) init_state = Inr s \<and> App s = Inr e"
    by blast
next
  show "\<forall>s h t. App (s\<lparr>heap := h, trace := t\<rparr>) = App s"
    by (simp add: App_def)
qed

text \<open>
  C9. In every state in which the exported binding \<^verbatim>\<open>queryClient\<close> holds a reference,
  whatever that reference and whatever else the heap holds, \<^verbatim>\<open>App\<close> returns a provider
  whose \<^verbatim>\<open>client\<close> prop is that very reference; the page finds that reference in
  scope; and importing the module once more returns the state unchanged, so an importer
  reads the same binding. After startup and any operations the binding holds a
  reference, and the heap holds the one client it denotes.
\<close>

theorem provider_client_is_singleton:
  "(queryClient s = Some r \<longrightarrow>
      (\<exists>e. App s = Inr e
         \<and> client_prop e = Some r
         \<and> clients_in_scope e = [Some r]
         \<and> import_queryClient s = Inr s))
   \<and> (\<exists>s' r' e c. run (Import_App # ops) init_state = Inr s'
         \<and> queryClient s' = Some r'
         \<and> App s' = Inr e
         \<and> client_prop e = Some r'
         \<and> clients_in_scope e = [Some r']
         \<and> import_queryClient s' = Inr s'
         \<and> heap s' = [c]
         \<and> client_at (heap s') r' = Some c)"
proof
  show "queryClient s = Some r \<longrightarrow>
      (\<exists>e. App s = Inr e
         \<and> client_prop e = Some r
         \<and> clients_in_scope e = [Some r]
         \<and> import_queryClient s = Inr s)"
  proof
    assume b: "queryClient s = Some r"
    then have "App s = Inr (root_tree r)"
      by (simp add: App_def root_tree_def)
    moreover have "client_prop (root_tree r) = Some r"
      by (simp add: root_tree_def)
    moreover have "clients_in_scope (root_tree r) = [Some r]"
      by (rule clients_in_scope_root)
    moreover from b have "import_queryClient s = Inr s"
      by (simp add: import_queryClient_def)
    ultimately show "\<exists>e. App s = Inr e
         \<and> client_prop e = Some r
         \<and> clients_in_scope e = [Some r]
         \<and> import_queryClient s = Inr s"
      by (intro exI conjI)
  qed
next
  obtain m where "run (Import_App # ops) init_state = Inr (loaded m)"
    using run_after_import by blast
  moreover have "queryClient (loaded m) = Some 0"
    by (rule queryClient_loaded)
  moreover have "App (loaded m) = Inr (root_tree 0)"
    by (rule App_loaded)
  moreover have "client_prop (root_tree 0) = Some 0"
    by (simp add: root_tree_def)
  moreover have "clients_in_scope (root_tree 0) = [Some 0]"
    by (rule clients_in_scope_root)
  moreover have "import_queryClient (loaded m) = Inr (loaded m)"
    by (simp add: import_queryClient_def queryClient_loaded)
  moreover have "heap (loaded m) = [policy_client]"
    by (rule heap_loaded)
  moreover have "client_at (heap (loaded m)) 0 = Some policy_client"
    by (simp add: client_at_def heap_loaded)
  ultimately show "\<exists>s' r' e c. run (Import_App # ops) init_state = Inr s'
         \<and> queryClient s' = Some r'
         \<and> App s' = Inr e
         \<and> client_prop e = Some r'
         \<and> clients_in_scope e = [Some r']
         \<and> import_queryClient s' = Inr s'
         \<and> heap s' = [c]
         \<and> client_at (heap s') r' = Some c"
    by (intro exI conjI)
qed

text \<open>
  The theorem at a state whose heap holds two clients and whose binding is the second:
  the provider is given the second.
\<close>

theorem provider_client_is_singleton_witness:
  "queryClient \<lparr>heap = [policy_client, policy_client], queryClient = Some 1, trace = []\<rparr>
     = Some 1
   \<and> (\<exists>e. App \<lparr>heap = [policy_client, policy_client], queryClient = Some 1, trace = []\<rparr>
            = Inr e
         \<and> client_prop e = Some 1
         \<and> clients_in_scope e = [Some 1])"
proof -
  let ?s = "\<lparr>heap = [policy_client, policy_client], queryClient = Some 1, trace = []\<rparr>"
  have b: "queryClient ?s = Some 1"
    by simp
  from provider_client_is_singleton [of ?s 1 "[]"]
  have "queryClient ?s = Some 1 \<longrightarrow>
      (\<exists>e. App ?s = Inr e
         \<and> client_prop e = Some 1
         \<and> clients_in_scope e = [Some 1]
         \<and> import_queryClient ?s = Inr ?s)"
    by (rule conjunct1)
  with b show ?thesis by blast
qed

section \<open>What the construction leaves alone\<close>

lemma own_keys_config: "own_keys queryClient_config = Inr [''defaultOptions'']"
  by (simp add: queryClient_config_def)

lemma own_keys_policy_client: "own_keys (defaultOptions policy_client) = Inr [''queries'']"
  by (simp add: policy_client_def)

lemma queries_policy_client:
  "\<exists>q. get_prop (defaultOptions policy_client) ''queries'' = Inr q
     \<and> own_keys q = Inr [''refetchOnWindowFocus'', ''retry'', ''staleTime'']"
  by (simp add: policy_client_def)

text \<open>
  C10. The own keys of the literal passed to the constructor are \<^verbatim>\<open>defaultOptions\<close>
  alone, and the own keys of the constructed client's default options are
  \<^verbatim>\<open>queries\<close> alone, whose own keys are the three of the source: no other option is
  set. In particular \<^verbatim>\<open>mutations\<close> reads \<^verbatim>\<open>undefined\<close>, so that the library's own
  defaults apply to mutations. The construction leaves the clients already in the heap
  as they were.
\<close>

theorem only_query_defaults_set:
  "own_keys queryClient_config = Inr [''defaultOptions'']
   \<and> (\<exists>s' r c q. queryClient_module s = Inr s' \<and> queryClient s' = Some r
         \<and> client_at (heap s') r = Some c
         \<and> own_keys (defaultOptions c) = Inr [''queries'']
         \<and> get_prop (defaultOptions c) ''queries'' = Inr q
         \<and> own_keys q = Inr [''refetchOnWindowFocus'', ''retry'', ''staleTime'']
         \<and> get_prop (defaultOptions c) ''mutations'' = Inr JUndefined
         \<and> take (length (heap s)) (heap s') = heap s)"
proof
  show "own_keys queryClient_config = Inr [''defaultOptions'']"
    by (rule own_keys_config)
next
  let ?s' = "s\<lparr>heap := heap s @ [policy_client],
               queryClient := Some (length (heap s)),
               trace := trace s @ [Constructed (length (heap s))]\<rparr>"
  obtain q where q: "get_prop (defaultOptions policy_client) ''queries'' = Inr q"
    and keys: "own_keys q = Inr [''refetchOnWindowFocus'', ''retry'', ''staleTime'']"
    using queries_policy_client by blast
  have "queryClient_module s = Inr ?s'"
    by (rule queryClient_module_eq)
  moreover have "queryClient ?s' = Some (length (heap s))"
    by simp
  moreover have "client_at (heap ?s') (length (heap s)) = Some policy_client"
    by (simp add: client_at_def)
  moreover have "own_keys (defaultOptions policy_client) = Inr [''queries'']"
    by (rule own_keys_policy_client)
  moreover note q keys
  moreover have "get_prop (defaultOptions policy_client) ''mutations'' = Inr JUndefined"
    by (simp add: policy_client_def)
  moreover have "take (length (heap s)) (heap ?s') = heap s"
    by simp
  ultimately show "\<exists>s' r c q. queryClient_module s = Inr s' \<and> queryClient s' = Some r
         \<and> client_at (heap s') r = Some c
         \<and> own_keys (defaultOptions c) = Inr [''queries'']
         \<and> get_prop (defaultOptions c) ''queries'' = Inr q
         \<and> own_keys q = Inr [''refetchOnWindowFocus'', ''retry'', ''staleTime'']
         \<and> get_prop (defaultOptions c) ''mutations'' = Inr JUndefined
         \<and> take (length (heap s)) (heap s') = heap s"
    by (intro exI conjI)
qed

section \<open>Construction comes before the first render\<close>

lemma renders_in_order:
  "constructed_before_render [0] (replicate n (Rendered (root_tree 0)))"
  by (induction n) (simp_all add: clients_in_scope_root)

lemma render_first_out_of_order:
  "\<not> constructed_before_render [] [Rendered (root_tree 0), Constructed 0]"
  by (simp add: clients_in_scope_root)

lemma policy_client_complete: "policy_complete policy_client"
  by (simp add: policy_complete_def policy_client_def has_default_def)

text \<open>
  C6. In every run of the program from the initial state, each rendered tree comes
  after the construction of the client that the descendants of its provider find in
  scope, and that client is in the heap with all three query defaults set. (A render
  with the module not yet loaded does not happen: \<open>render_before_import\<close>. The source
  has no fetch; what a descendant's fetch observes is the client in its scope.)
\<close>

theorem construction_precedes_render:
  assumes "run ops init_state = Inr s"
  shows "constructed_before_render [] (trace s)
     \<and> (\<forall>el r. Rendered el \<in> set (trace s) \<longrightarrow> Some r \<in> set (clients_in_scope el) \<longrightarrow>
           (\<exists>c. client_at (heap s) r = Some c \<and> policy_complete c))"
proof -
  from assms have "s = init_state \<or> (\<exists>m. s = loaded m)"
    by (rule run_init_cases)
  then show ?thesis
  proof
    assume "s = init_state"
    then show ?thesis by (simp add: init_state_def)
  next
    assume "\<exists>m. s = loaded m"
    then obtain m where s: "s = loaded m" ..
    have order: "constructed_before_render [] (trace (loaded m))"
      by (simp add: loaded_def renders_in_order)
    have "\<exists>c. client_at (heap (loaded m)) r = Some c \<and> policy_complete c"
      if "Rendered el \<in> set (trace (loaded m))" and "Some r \<in> set (clients_in_scope el)"
      for el r
    proof -
      from that(1) have "el = root_tree 0"
        by (auto simp: loaded_def)
      with that(2) have "r = 0"
        by (simp add: clients_in_scope_root)
      then show ?thesis
        by (simp add: client_at_def heap_loaded policy_client_complete)
    qed
    with order s show ?thesis by blast
  qed
qed

theorem construction_precedes_render_witness:
  "run [Import_App, Render_App] init_state = Inr (loaded 1)
   \<and> Rendered (root_tree 0) \<in> set (trace (loaded 1))
   \<and> Some 0 \<in> set (clients_in_scope (root_tree 0))
   \<and> constructed_before_render [] (trace (loaded 1))
   \<and> (\<exists>c. client_at (heap (loaded 1)) 0 = Some c \<and> policy_complete c)"
proof -
  have h: "run [Import_App, Render_App] init_state = Inr (loaded 1)"
    by (simp add: import_init step_loaded)
  have r: "Rendered (root_tree 0) \<in> set (trace (loaded 1))"
    by (simp add: loaded_def)
  have c: "Some 0 \<in> set (clients_in_scope (root_tree 0))"
    by (simp add: clients_in_scope_root)
  from construction_precedes_render [OF h] r c h show ?thesis
    by blast
qed

end
